theory Spec2Isabelle
  imports Main
begin

section \<open>Values of the mapping runtime\<close>

text \<open>
  An \<open>Address\<close> of the runtime is a heap object holding bytes. The handler compares
  addresses in two ways: \<open>a.equals(b)\<close> compares the bytes, \<open>a === b\<close> compares the
  objects. The bytes are kept as their canonical lowercase hex rendering, which is what
  \<open>toHex()\<close> returns and what entity ids are made of; \<open>obj\<close> is the identity of the object.
\<close>

record Address =
  obj :: nat
  hex :: string

definition equals :: "Address \<Rightarrow> Address \<Rightarrow> bool" where
  "equals a b = (hex a = hex b)"

definition toHex :: "Address \<Rightarrow> string" where
  "toHex a = hex a"

text \<open>\<open>x === c\<close> for a nullable \<open>x\<close>: never true of \<open>null\<close>, otherwise object identity.\<close>

definition strict_eq :: "Address option \<Rightarrow> Address \<Rightarrow> bool" where
  "strict_eq x c = (case x of None \<Rightarrow> False | Some a \<Rightarrow> obj a = obj c)"

text \<open>
  Modelled from the spec: the constants \<open>BIGINT_ONE\<close> and \<open>BIGINT_ZERO\<close> of
  \<open>src/utils/consts.ts\<close> are not among the sources; the spec reads them as the
  integers one ("increment by 1", "initialize to 1") and zero.
\<close>

definition BIGINT_ONE :: int where
  "BIGINT_ONE = 1"

definition BIGINT_ZERO :: int where
  "BIGINT_ZERO = 0"

text \<open>
  The address table of \<open>src/utils/consts.ts\<close> is not among the sources either. It is a
  parameter of everything below: one address per imported name.
\<close>

record Consts =
  ZERO_ADDRESS :: Address
  OPENSEAV1 :: Address
  OPENSEAV2 :: Address
  SEAPORT :: Address
  LOOKS_RARE :: Address
  OXPROTOCOL :: Address
  OXPROTOCOLV2 :: Address
  BLUR :: Address
  RARIBLE :: Address
  X2Y2_ADDRESS :: Address
  NFTX_ADDRESS :: Address
  GENIE_SWAP :: Address
  CRYPTO_COVEN :: Address

section \<open>The Marketplace enum\<close>

text \<open>
  Modelled from the spec: the enum declaration of \<open>src/utils/helper.ts\<close> is not among
  the sources; its members are the closed set of tags of spec 4.1, in the order the spec
  (and the schema, and \<open>getMarketplaceName\<close>) list them.
\<close>

datatype Marketplace =
  OpenSeaV1 | OpenSeaV2 | SeaPort | LooksRare | OxProtocol | OxProtocolV2 | Blur
  | Rarible | X2Y2 | NFTX | GenieSwap | CryptoCoven | Unknown

text \<open>
  The members of an enum without initialisers are the integers from 0 on, in declaration
  order; \<open>marketplace.toString()\<close> is the decimal rendering of that integer.
\<close>

fun ordinal :: "Marketplace \<Rightarrow> nat" where
  "ordinal OpenSeaV1 = 0"
| "ordinal OpenSeaV2 = 1"
| "ordinal SeaPort = 2"
| "ordinal LooksRare = 3"
| "ordinal OxProtocol = 4"
| "ordinal OxProtocolV2 = 5"
| "ordinal Blur = 6"
| "ordinal Rarible = 7"
| "ordinal X2Y2 = 8"
| "ordinal NFTX = 9"
| "ordinal GenieSwap = 10"
| "ordinal CryptoCoven = 11"
| "ordinal Unknown = 12"

fun decimal :: "nat \<Rightarrow> string" where
  "decimal n =
     (if n < 10 then [''0123456789'' ! n]
      else decimal (n div 10) @ [''0123456789'' ! (n mod 10)])"

declare decimal.simps [simp del]

definition Marketplace_toString :: "Marketplace \<Rightarrow> string" where
  "Marketplace_toString m = decimal (ordinal m)"

text \<open>\<open>getMarketplaceName\<close>, as the README of the repository gives it.\<close>

fun getMarketplaceName :: "Marketplace \<Rightarrow> string" where
  "getMarketplaceName OpenSeaV1 = ''OpenSeaV1''"
| "getMarketplaceName OpenSeaV2 = ''OpenSeaV2''"
| "getMarketplaceName SeaPort = ''SeaPort''"
| "getMarketplaceName LooksRare = ''LooksRare''"
| "getMarketplaceName OxProtocol = ''OxProtocol''"
| "getMarketplaceName OxProtocolV2 = ''OxProtocolV2''"
| "getMarketplaceName Blur = ''Blur''"
| "getMarketplaceName Rarible = ''Rarible''"
| "getMarketplaceName X2Y2 = ''X2Y2''"
| "getMarketplaceName NFTX = ''NFTX''"
| "getMarketplaceName GenieSwap = ''GenieSwap''"
| "getMarketplaceName CryptoCoven = ''CryptoCoven''"
| "getMarketplaceName Unknown = ''Unknown''"

text \<open>\<open>BigInt.toHex()\<close>: the hexadecimal digits after \<open>0x\<close>.\<close>

fun hexDigits :: "nat \<Rightarrow> string" where
  "hexDigits n =
     (if n < 16 then [''0123456789abcdef'' ! n]
      else hexDigits (n div 16) @ [''0123456789abcdef'' ! (n mod 16)])"

declare hexDigits.simps [simp del]

definition BigInt_toHex :: "nat \<Rightarrow> string" where
  "BigInt_toHex n = ''0x'' @ hexDigits n"

section \<open>Entities and the entity store\<close>

text \<open>
  The entities of the schema. The handler tests \<open>sendCount\<close>, \<open>receiveCount\<close>,
  \<open>totalSpent\<close> and \<open>nftCount\<close> for presence before it reads them (\<open>x ? ... : ...\<close>,
  where a \<open>BigInt\<close> object is truthy whatever its value), so these fields may be unset.
  It reads \<open>uniqueMarketplacesCount\<close> and \<open>transactionCount\<close> without a test, as the
  schema types them (\<open>BigInt!\<close>): they are plain integers.
\<close>

record Account =
  id_Account :: string
  txHash :: "string option"
  sendCount :: "int option"
  receiveCount :: "int option"
  totalSpent :: "int option"
  nftCount :: "int option"
  uniqueMarketplacesCount :: int

record MarketplaceInteraction =
  id_Interaction :: string
  account :: string
  marketplace_Interaction :: string
  transactionCount :: int

record CovenTransfer =
  id_Transfer :: string
  from_Transfer :: string
  to_Transfer :: string
  tokenId :: int
  logIndex_Transfer :: nat
  txHash_Transfer :: string
  value_Transfer :: int
  marketplace_Transfer :: string

text \<open>
  The store keeps, for each entity type, the saved entities; \<open>load\<close> finds the entity
  with the given id, \<open>save\<close> replaces the entity that has the id of the saved one.
\<close>

record Store =
  accounts :: "Account list"
  interactions :: "MarketplaceInteraction list"
  transfers :: "CovenTransfer list"

definition Account_load :: "Store \<Rightarrow> string \<Rightarrow> Account option" where
  "Account_load s i = find (\<lambda>a. id_Account a = i) (accounts s)"

definition Account_save :: "Account \<Rightarrow> Store \<Rightarrow> Store" where
  "Account_save a s =
     s\<lparr>accounts := a # filter (\<lambda>b. id_Account b \<noteq> id_Account a) (accounts s)\<rparr>"

definition MarketplaceInteraction_load :: "Store \<Rightarrow> string \<Rightarrow> MarketplaceInteraction option" where
  "MarketplaceInteraction_load s i = find (\<lambda>m. id_Interaction m = i) (interactions s)"

definition MarketplaceInteraction_save :: "MarketplaceInteraction \<Rightarrow> Store \<Rightarrow> Store" where
  "MarketplaceInteraction_save m s =
     s\<lparr>interactions := m # filter (\<lambda>b. id_Interaction b \<noteq> id_Interaction m) (interactions s)\<rparr>"

definition CovenTransfer_load :: "Store \<Rightarrow> string \<Rightarrow> CovenTransfer option" where
  "CovenTransfer_load s i = find (\<lambda>t. id_Transfer t = i) (transfers s)"

definition CovenTransfer_save :: "CovenTransfer \<Rightarrow> Store \<Rightarrow> Store" where
  "CovenTransfer_save t s =
     s\<lparr>transfers := t # filter (\<lambda>b. id_Transfer b \<noteq> id_Transfer t) (transfers s)\<rparr>"

text \<open>
  Modelled from the spec: \<open>getOrCreateAccount\<close> of \<open>src/utils/helper.ts\<close> is not among
  the sources. Spec 4.2 step 1: "Resolve or create Account records" for an address, the
  account being "identified by a chain address (lowercase hex string)"; spec 6: the store
  offers \<open>load(id)\<close> and \<open>new(id)\<close>. What the helper puts into the fields of an account
  it creates is not stated, so the initialiser \<open>fresh\<close> is a parameter. Each call returns
  an entity of its own: two calls for one id give two copies.
\<close>

definition getOrCreateAccount :: "(string \<Rightarrow> Account) \<Rightarrow> Store \<Rightarrow> Address \<Rightarrow> Account" where
  "getOrCreateAccount fresh s address =
     (case Account_load s (toHex address) of
        Some a \<Rightarrow> a
      | None \<Rightarrow> (fresh (toHex address))\<lparr>id_Account := toHex address\<rparr>)"

section \<open>The event and the log\<close>

text \<open>
  What the handler reads of the event: the parameters of the Transfer event, the hash, the
  value and the two addresses of the enclosing transaction, and the log index. The handler
  holds both transaction addresses in variables of type \<open>Address | null\<close>.
\<close>

record CovenTransferEvent =
  params_from :: Address
  params_to :: Address
  params_tokenId :: int
  transaction_hash :: string
  transaction_value :: int
  transaction_to :: "Address option"
  transaction_from :: "Address option"
  logIndex :: nat

text \<open>The four \<open>log.info\<close> messages of the handler, each with the transaction hash.\<close>

datatype LogEntry =
  UnknownMarketPlace string
  | NFTBurnDetected string
  | UnusualActivity string
  | SkippingInteractionTracking string

section \<open>The handler\<close>

text \<open>
  Lines 117 to 148 of \<open>handleTransfer\<close>: the marketplace is \<open>Unknown\<close> unless both
  transaction addresses are present and one of them equals a known address; the chain of
  comparisons is in the order of the source.
\<close>

definition classifyMarketplace :: "Consts \<Rightarrow> Address option \<Rightarrow> Address option \<Rightarrow> Marketplace" where
  "classifyMarketplace K sender receiver =
     (case sender of
        None \<Rightarrow> Unknown
      | Some sd \<Rightarrow>
          (case receiver of
             None \<Rightarrow> Unknown
           | Some rc \<Rightarrow>
               if equals sd (OPENSEAV1 K) \<or> equals rc (OPENSEAV1 K) then OpenSeaV1
               else if equals sd (OPENSEAV2 K) \<or> equals rc (OPENSEAV2 K) then OpenSeaV2
               else if equals sd (SEAPORT K) \<or> equals rc (SEAPORT K) then SeaPort
               else if equals sd (LOOKS_RARE K) \<or> equals rc (LOOKS_RARE K) then LooksRare
               else if equals sd (OXPROTOCOL K) \<or> equals rc (OXPROTOCOL K) then OxProtocol
               else if equals sd (OXPROTOCOLV2 K) \<or> equals rc (OXPROTOCOLV2 K) then OxProtocolV2
               else if equals sd (BLUR K) \<or> equals rc (BLUR K) then Blur
               else if equals sd (RARIBLE K) \<or> equals rc (RARIBLE K) then Rarible
               else if equals sd (X2Y2_ADDRESS K) \<or> equals rc (X2Y2_ADDRESS K) then X2Y2
               else if equals sd (NFTX_ADDRESS K) \<or> equals rc (NFTX_ADDRESS K) then NFTX
               else if equals sd (GENIE_SWAP K) \<or> equals rc (GENIE_SWAP K) then GenieSwap
               else if equals sd (CRYPTO_COVEN K) \<or> equals rc (CRYPTO_COVEN K) then CryptoCoven
               else Unknown))"

text \<open>Lines 150 to 157: the chain of diagnostics after the classification.\<close>

definition marketplaceLog ::
  "Consts \<Rightarrow> Marketplace \<Rightarrow> Address option \<Rightarrow> Address option \<Rightarrow> string \<Rightarrow> LogEntry list" where
  "marketplaceLog K marketplace sender receiver h =
     (if marketplace = Unknown then [UnknownMarketPlace h]
      else if strict_eq sender (ZERO_ADDRESS K) then [NFTBurnDetected h]
      else if sender = None \<or> receiver = None then [UnusualActivity h]
      else [])"

text \<open>
  \<open>handleTransfer\<close>, statement by statement. The store and the log are threaded through;
  \<open>fromAccount\<close> and \<open>toAccount\<close> are the two in-memory entities, each rebound where the
  source assigns a field.
\<close>

definition handleTransfer ::
  "Consts \<Rightarrow> (string \<Rightarrow> Account) \<Rightarrow> CovenTransferEvent \<Rightarrow> Store \<Rightarrow> Store \<times> LogEntry list" where
  "handleTransfer K fresh event s =
    (let fromAccount = getOrCreateAccount fresh s (params_from event);
         toAccount = getOrCreateAccount fresh s (params_to event);
         toAccount = toAccount\<lparr>txHash := Some (transaction_hash event)\<rparr>;
         fromAccount = fromAccount\<lparr>txHash := Some (transaction_hash event)\<rparr>;
         fromAccount = fromAccount\<lparr>sendCount := Some
           (case sendCount fromAccount of Some c \<Rightarrow> c + BIGINT_ONE | None \<Rightarrow> BIGINT_ONE)\<rparr>;
         toAccount = toAccount\<lparr>receiveCount := Some
           (case receiveCount toAccount of Some c \<Rightarrow> c + BIGINT_ONE | None \<Rightarrow> BIGINT_ONE)\<rparr>;
         toAccount = toAccount\<lparr>totalSpent := Some
           (case totalSpent toAccount of
              Some c \<Rightarrow> c + transaction_value event
            | None \<Rightarrow> transaction_value event)\<rparr>;
         isTransfer = (\<not> equals (params_from event) (ZERO_ADDRESS K)
                       \<and> \<not> equals (params_to event) (ZERO_ADDRESS K));
         fromAccount =
           (if isTransfer
            then fromAccount\<lparr>nftCount := Some
              (case nftCount fromAccount of Some c \<Rightarrow> c - BIGINT_ONE | None \<Rightarrow> BIGINT_ZERO)\<rparr>
            else fromAccount);
         toAccount =
           (if isTransfer
            then toAccount\<lparr>nftCount := Some
              (case nftCount toAccount of Some c \<Rightarrow> c + BIGINT_ONE | None \<Rightarrow> BIGINT_ONE)\<rparr>
            else toAccount);
         s = Account_save fromAccount s;
         s = Account_save toAccount s;
         sender = transaction_to event;
         receiver = transaction_from event;
         marketplace = classifyMarketplace K sender receiver;
         logs = marketplaceLog K marketplace sender receiver (transaction_hash event);
         transfer = \<lparr>id_Transfer = transaction_hash event @ ''-'' @ BigInt_toHex (logIndex event),
                     from_Transfer = id_Account fromAccount,
                     to_Transfer = id_Account toAccount,
                     tokenId = params_tokenId event,
                     logIndex_Transfer = logIndex event,
                     txHash_Transfer = transaction_hash event,
                     value_Transfer = transaction_value event,
                     marketplace_Transfer = getMarketplaceName marketplace\<rparr>
     in if isTransfer then
          (let fromMarketplaceInteractionId =
                 id_Account fromAccount @ ''-'' @ Marketplace_toString marketplace;
               (fromInteraction, fromAccount) =
                 (case MarketplaceInteraction_load s fromMarketplaceInteractionId of
                    None \<Rightarrow>
                      (\<lparr>id_Interaction = fromMarketplaceInteractionId,
                        account = id_Account fromAccount,
                        marketplace_Interaction = getMarketplaceName marketplace,
                        transactionCount = BIGINT_ONE\<rparr>,
                       fromAccount\<lparr>uniqueMarketplacesCount :=
                         uniqueMarketplacesCount fromAccount + BIGINT_ONE\<rparr>)
                  | Some i \<Rightarrow>
                      (i\<lparr>transactionCount := transactionCount i + BIGINT_ONE\<rparr>, fromAccount));
               s = MarketplaceInteraction_save fromInteraction s;
               toMarketplaceInteractionId =
                 id_Account toAccount @ ''-'' @ Marketplace_toString marketplace;
               (toInteraction, toAccount) =
                 (case MarketplaceInteraction_load s toMarketplaceInteractionId of
                    None \<Rightarrow>
                      (\<lparr>id_Interaction = toMarketplaceInteractionId,
                        account = id_Account toAccount,
                        marketplace_Interaction = getMarketplaceName marketplace,
                        transactionCount = BIGINT_ONE\<rparr>,
                       toAccount\<lparr>uniqueMarketplacesCount :=
                         uniqueMarketplacesCount toAccount + BIGINT_ONE\<rparr>)
                  | Some i \<Rightarrow>
                      (i\<lparr>transactionCount := transactionCount i + BIGINT_ONE\<rparr>, toAccount));
               s = MarketplaceInteraction_save toInteraction s;
               s = Account_save fromAccount s;
               s = Account_save toAccount s;
               s = CovenTransfer_save transfer s
           in (s, logs))
        else (s, logs @ [SkippingInteractionTracking (transaction_hash event)]))"

text \<open>
  A sequence of events, handled in order on a store; the logs are appended.
\<close>

fun handleAll ::
  "Consts \<Rightarrow> (string \<Rightarrow> Account) \<Rightarrow> CovenTransferEvent list \<Rightarrow> Store \<Rightarrow> Store \<times> LogEntry list" where
  "handleAll K fresh [] s = (s, [])"
| "handleAll K fresh (e # es) s =
     (let (s1, l1) = handleTransfer K fresh e s;
          (s2, l2) = handleAll K fresh es s1
      in (s2, l1 @ l2))"

section \<open>The classifier in the words of the specification\<close>

text \<open>
  Spec 4.1 describes the classifier as a search through a fixed, ordered list of
  (tag, known address) pairs, each known address tested against candidate A or candidate B,
  the first match giving the tag. This is that description, to be compared with the chain
  of comparisons of the source.
\<close>

definition marketplaceTable :: "Consts \<Rightarrow> (Marketplace \<times> Address) list" where
  "marketplaceTable K =
     [(OpenSeaV1, OPENSEAV1 K), (OpenSeaV2, OPENSEAV2 K), (SeaPort, SEAPORT K),
      (LooksRare, LOOKS_RARE K), (OxProtocol, OXPROTOCOL K), (OxProtocolV2, OXPROTOCOLV2 K),
      (Blur, BLUR K), (Rarible, RARIBLE K), (X2Y2, X2Y2_ADDRESS K), (NFTX, NFTX_ADDRESS K),
      (GenieSwap, GENIE_SWAP K), (CryptoCoven, CRYPTO_COVEN K)]"

definition classifier_spec :: "Consts \<Rightarrow> Address option \<Rightarrow> Address option \<Rightarrow> Marketplace" where
  "classifier_spec K candidateA candidateB =
     (case (candidateA, candidateB) of
        (Some a, Some b) \<Rightarrow>
          (case find (\<lambda>(tag, knownAddress). equals knownAddress a \<or> equals knownAddress b)
                  (marketplaceTable K) of
             Some (tag, knownAddress) \<Rightarrow> tag
           | None \<Rightarrow> Unknown)
      | _ \<Rightarrow> Unknown)"

text \<open>The closed set of tags of spec 4.1.\<close>

definition closedTags :: "Marketplace list" where
  "closedTags = [OpenSeaV1, OpenSeaV2, SeaPort, LooksRare, OxProtocol, OxProtocolV2, Blur,
     Rarible, X2Y2, NFTX, GenieSwap, CryptoCoven, Unknown]"

text \<open>
  The number of distinct \<open>MarketplaceInteraction\<close> records of the store whose account
  reference is the account \<open>i\<close>.
\<close>

definition interactionCount :: "Store \<Rightarrow> string \<Rightarrow> nat" where
  "interactionCount s i =
     length (remdups (map id_Interaction (filter (\<lambda>m. account m = i) (interactions s))))"

text \<open>
  The invariant of spec 3 on a store: the interaction records have distinct ids, and for
  every address the \<open>uniqueMarketplacesCount\<close> of its account, read through
  \<open>getOrCreateAccount\<close>, is the number of interaction records of that account.
\<close>

definition countsAgree :: "(string \<Rightarrow> Account) \<Rightarrow> Store \<Rightarrow> bool" where
  "countsAgree fresh s =
     (distinct (map id_Interaction (interactions s))
      \<and> (\<forall>a. uniqueMarketplacesCount (getOrCreateAccount fresh s a)
               = int (interactionCount s (toHex a))))"

section \<open>Names for the intermediate values of the handler\<close>

text \<open>
  The lemmas about \<open>handleTransfer\<close> need names for what it computes on the way:
  \<open>countedFrom\<close> and \<open>countedTo\<close> are the two in-memory accounts as they are saved the
  first time (lines 93 and 94), and \<open>tracked\<close> is the block that the handler runs once
  for \<open>fromAccount\<close> (lines 170 to 191) and once for \<open>toAccount\<close> (lines 195 to 216).
  Lemma \<open>handleTransfer_nonzero\<close> proves that the handler is their composition.
\<close>

definition countedFrom :: "Consts \<Rightarrow> (string \<Rightarrow> Account) \<Rightarrow> CovenTransferEvent \<Rightarrow> Store \<Rightarrow> Account" where
  "countedFrom K fresh e s =
     (let a = getOrCreateAccount fresh s (params_from e);
          b = a\<lparr>txHash := Some (transaction_hash e),
                sendCount := Some (case sendCount a of Some c \<Rightarrow> c + 1 | None \<Rightarrow> 1)\<rparr>
      in if \<not> equals (params_from e) (ZERO_ADDRESS K) \<and> \<not> equals (params_to e) (ZERO_ADDRESS K)
         then b\<lparr>nftCount := Some (case nftCount a of Some c \<Rightarrow> c - 1 | None \<Rightarrow> 0)\<rparr>
         else b)"

definition countedTo :: "Consts \<Rightarrow> (string \<Rightarrow> Account) \<Rightarrow> CovenTransferEvent \<Rightarrow> Store \<Rightarrow> Account" where
  "countedTo K fresh e s =
     (let a = getOrCreateAccount fresh s (params_to e);
          b = a\<lparr>txHash := Some (transaction_hash e),
                receiveCount := Some (case receiveCount a of Some c \<Rightarrow> c + 1 | None \<Rightarrow> 1),
                totalSpent := Some (case totalSpent a of
                                      Some c \<Rightarrow> c + transaction_value e
                                    | None \<Rightarrow> transaction_value e)\<rparr>
      in if \<not> equals (params_from e) (ZERO_ADDRESS K) \<and> \<not> equals (params_to e) (ZERO_ADDRESS K)
         then b\<lparr>nftCount := Some (case nftCount a of Some c \<Rightarrow> c + 1 | None \<Rightarrow> 1)\<rparr>
         else b)"

definition tracked :: "Marketplace \<Rightarrow> Account \<Rightarrow> Store \<Rightarrow> Account \<times> Store" where
  "tracked T a s =
     (case MarketplaceInteraction_load s (id_Account a @ ''-'' @ Marketplace_toString T) of
        None \<Rightarrow>
          (a\<lparr>uniqueMarketplacesCount := uniqueMarketplacesCount a + 1\<rparr>,
           MarketplaceInteraction_save
             \<lparr>id_Interaction = id_Account a @ ''-'' @ Marketplace_toString T,
              account = id_Account a,
              marketplace_Interaction = getMarketplaceName T,
              transactionCount = 1\<rparr> s)
      | Some i \<Rightarrow>
          (a, MarketplaceInteraction_save (i\<lparr>transactionCount := transactionCount i + 1\<rparr>) s))"

section \<open>Example inputs\<close>

text \<open>
  An address table of synthetic addresses; an initialiser that creates an account with no
  counter set and no marketplace counted; the empty store, and the store after
  \<open>saleEvent\<close>. The events: a sale from \<open>0xaa\<close> to \<open>0xbb\<close> in a transaction sent to
  the OpenSeaV1 address; a transfer of \<open>0xaa\<close> to itself, in a transaction sent to an
  unknown address and in one sent to the OpenSeaV1 address; a mint to \<open>0xaa\<close>; a
  transfer in a transaction without a \<open>to\<close> address; a transfer in a transaction sent to
  the zero address.
\<close>

definition fixtureConsts :: Consts where
  "fixtureConsts =
     \<lparr>ZERO_ADDRESS = \<lparr>obj = 0, hex = ''0x00''\<rparr>,
      OPENSEAV1 = \<lparr>obj = 1, hex = ''0x01''\<rparr>,
      OPENSEAV2 = \<lparr>obj = 2, hex = ''0x02''\<rparr>,
      SEAPORT = \<lparr>obj = 3, hex = ''0x03''\<rparr>,
      LOOKS_RARE = \<lparr>obj = 4, hex = ''0x04''\<rparr>,
      OXPROTOCOL = \<lparr>obj = 5, hex = ''0x05''\<rparr>,
      OXPROTOCOLV2 = \<lparr>obj = 6, hex = ''0x06''\<rparr>,
      BLUR = \<lparr>obj = 7, hex = ''0x07''\<rparr>,
      RARIBLE = \<lparr>obj = 8, hex = ''0x08''\<rparr>,
      X2Y2_ADDRESS = \<lparr>obj = 9, hex = ''0x09''\<rparr>,
      NFTX_ADDRESS = \<lparr>obj = 10, hex = ''0x0a''\<rparr>,
      GENIE_SWAP = \<lparr>obj = 11, hex = ''0x0b''\<rparr>,
      CRYPTO_COVEN = \<lparr>obj = 12, hex = ''0x0c''\<rparr>\<rparr>"

definition blankAccount :: "string \<Rightarrow> Account" where
  "blankAccount i =
     \<lparr>id_Account = i, txHash = None, sendCount = None, receiveCount = None,
      totalSpent = None, nftCount = None, uniqueMarketplacesCount = 0\<rparr>"

definition emptyStore :: Store where
  "emptyStore = \<lparr>accounts = [], interactions = [], transfers = []\<rparr>"

definition saleEvent :: CovenTransferEvent where
  "saleEvent =
     \<lparr>params_from = \<lparr>obj = 100, hex = ''0xaa''\<rparr>,
      params_to = \<lparr>obj = 101, hex = ''0xbb''\<rparr>,
      params_tokenId = 42,
      transaction_hash = ''0xh1'',
      transaction_value = 5,
      transaction_to = Some \<lparr>obj = 102, hex = ''0x01''\<rparr>,
      transaction_from = Some \<lparr>obj = 103, hex = ''0xbb''\<rparr>,
      logIndex = 7\<rparr>"

definition selfEvent :: CovenTransferEvent where
  "selfEvent =
     \<lparr>params_from = \<lparr>obj = 100, hex = ''0xaa''\<rparr>,
      params_to = \<lparr>obj = 101, hex = ''0xaa''\<rparr>,
      params_tokenId = 42,
      transaction_hash = ''0xh2'',
      transaction_value = 0,
      transaction_to = Some \<lparr>obj = 102, hex = ''0xee''\<rparr>,
      transaction_from = Some \<lparr>obj = 103, hex = ''0xaa''\<rparr>,
      logIndex = 3\<rparr>"

definition mintEvent :: CovenTransferEvent where
  "mintEvent =
     \<lparr>params_from = \<lparr>obj = 100, hex = ''0x00''\<rparr>,
      params_to = \<lparr>obj = 101, hex = ''0xaa''\<rparr>,
      params_tokenId = 1,
      transaction_hash = ''0xh0'',
      transaction_value = 7,
      transaction_to = None,
      transaction_from = Some \<lparr>obj = 103, hex = ''0xaa''\<rparr>,
      logIndex = 0\<rparr>"

definition creationEvent :: CovenTransferEvent where
  "creationEvent =
     \<lparr>params_from = \<lparr>obj = 100, hex = ''0xaa''\<rparr>,
      params_to = \<lparr>obj = 101, hex = ''0xbb''\<rparr>,
      params_tokenId = 42,
      transaction_hash = ''0xh3'',
      transaction_value = 0,
      transaction_to = None,
      transaction_from = Some \<lparr>obj = 103, hex = ''0xaa''\<rparr>,
      logIndex = 1\<rparr>"

definition burnSignalEvent :: CovenTransferEvent where
  "burnSignalEvent =
     \<lparr>params_from = \<lparr>obj = 100, hex = ''0xaa''\<rparr>,
      params_to = \<lparr>obj = 101, hex = ''0xbb''\<rparr>,
      params_tokenId = 42,
      transaction_hash = ''0xh4'',
      transaction_value = 0,
      transaction_to = Some \<lparr>obj = 102, hex = ''0x00''\<rparr>,
      transaction_from = Some \<lparr>obj = 103, hex = ''0xaa''\<rparr>,
      logIndex = 1\<rparr>"

definition selfSaleEvent :: CovenTransferEvent where
  "selfSaleEvent =
     \<lparr>params_from = \<lparr>obj = 100, hex = ''0xaa''\<rparr>,
      params_to = \<lparr>obj = 101, hex = ''0xaa''\<rparr>,
      params_tokenId = 42,
      transaction_hash = ''0xh5'',
      transaction_value = 0,
      transaction_to = Some \<lparr>obj = 102, hex = ''0x01''\<rparr>,
      transaction_from = Some \<lparr>obj = 103, hex = ''0xaa''\<rparr>,
      logIndex = 2\<rparr>"

definition oneSaleStore :: Store where
  "oneSaleStore =
     \<lparr>accounts =
        [\<lparr>id_Account = ''0xbb'', txHash = Some ''0xh1'', sendCount = None,
          receiveCount = Some 1, totalSpent = Some 5, nftCount = Some 1,
          uniqueMarketplacesCount = 1\<rparr>,
         \<lparr>id_Account = ''0xaa'', txHash = Some ''0xh1'', sendCount = Some 1,
          receiveCount = None, totalSpent = None, nftCount = Some 0,
          uniqueMarketplacesCount = 1\<rparr>],
      interactions =
        [\<lparr>id_Interaction = ''0xbb-0'', account = ''0xbb'',
          marketplace_Interaction = ''OpenSeaV1'', transactionCount = 1\<rparr>,
         \<lparr>id_Interaction = ''0xaa-0'', account = ''0xaa'',
          marketplace_Interaction = ''OpenSeaV1'', transactionCount = 1\<rparr>],
      transfers =
        [\<lparr>id_Transfer = ''0xh1-0x7'', from_Transfer = ''0xaa'', to_Transfer = ''0xbb'',
          tokenId = 42, logIndex_Transfer = 7, txHash_Transfer = ''0xh1'', value_Transfer = 5,
          marketplace_Transfer = ''OpenSeaV1''\<rparr>]\<rparr>"

section \<open>Loading and saving\<close>

text \<open>
  The definitions to unfold when the handler is evaluated on an example, and what a load
  returns after a save.
\<close>

lemmas handler_defs =
  handleTransfer_def Let_def BIGINT_ONE_def BIGINT_ZERO_def equals_def toHex_def

lemmas fixture_defs =
  fixtureConsts_def blankAccount_def emptyStore_def saleEvent_def selfEvent_def mintEvent_def
  creationEvent_def burnSignalEvent_def selfSaleEvent_def

lemmas eval_defs =
  handler_defs marketplaceLog_def classifyMarketplace_def strict_eq_def
  getOrCreateAccount_def Account_load_def Account_save_def
  MarketplaceInteraction_load_def MarketplaceInteraction_save_def
  CovenTransfer_load_def CovenTransfer_save_def
  Marketplace_toString_def decimal.simps BigInt_toHex_def hexDigits.simps

lemma find_filter_id:
  "find (\<lambda>a. f a = i) (filter (\<lambda>b. f b \<noteq> j) xs) = (if i = j then None else find (\<lambda>a. f a = i) xs)"
  by (induction xs) auto

lemma Account_load_save [simp]:
  "Account_load (Account_save a s) i = (if i = id_Account a then Some a else Account_load s i)"
  by (auto simp: Account_load_def Account_save_def find_filter_id)

lemma Interaction_load_save [simp]:
  "MarketplaceInteraction_load (MarketplaceInteraction_save m s) i =
     (if i = id_Interaction m then Some m else MarketplaceInteraction_load s i)"
  by (auto simp: MarketplaceInteraction_load_def MarketplaceInteraction_save_def find_filter_id)

lemma Account_save_others [simp]:
  "interactions (Account_save a s) = interactions s"
  "transfers (Account_save a s) = transfers s"
  "MarketplaceInteraction_load (Account_save a s) k = MarketplaceInteraction_load s k"
  "CovenTransfer_load (Account_save a s) k = CovenTransfer_load s k"
  by (simp_all add: Account_save_def MarketplaceInteraction_load_def CovenTransfer_load_def)

lemma Interaction_save_others [simp]:
  "accounts (MarketplaceInteraction_save m s) = accounts s"
  "transfers (MarketplaceInteraction_save m s) = transfers s"
  "Account_load (MarketplaceInteraction_save m s) k = Account_load s k"
  "CovenTransfer_load (MarketplaceInteraction_save m s) k = CovenTransfer_load s k"
  by (simp_all add: MarketplaceInteraction_save_def Account_load_def CovenTransfer_load_def)

lemma Transfer_save_others [simp]:
  "accounts (CovenTransfer_save t s) = accounts s"
  "interactions (CovenTransfer_save t s) = interactions s"
  "Account_load (CovenTransfer_save t s) k = Account_load s k"
  "MarketplaceInteraction_load (CovenTransfer_save t s) k = MarketplaceInteraction_load s k"
  by (simp_all add: CovenTransfer_save_def Account_load_def MarketplaceInteraction_load_def)

lemma Account_load_id: "Account_load s i = Some a \<Longrightarrow> id_Account a = i"
  by (auto simp: Account_load_def dest: find_Some_iff [THEN iffD1])

lemma Interaction_load_id:
  "MarketplaceInteraction_load s i = Some m \<Longrightarrow> id_Interaction m = i"
  by (auto simp: MarketplaceInteraction_load_def dest: find_Some_iff [THEN iffD1])

lemma getOrCreateAccount_id [simp]: "id_Account (getOrCreateAccount fresh s a) = toHex a"
  by (auto simp: getOrCreateAccount_def dest: Account_load_id split: option.splits)

lemma getOrCreateAccount_save:
  "getOrCreateAccount fresh (Account_save a s) x =
     (if toHex x = id_Account a then a else getOrCreateAccount fresh s x)"
  by (simp add: getOrCreateAccount_def)

lemma getOrCreateAccount_same:
  "toHex x = toHex y \<Longrightarrow> getOrCreateAccount fresh s x = getOrCreateAccount fresh s y"
  by (simp add: getOrCreateAccount_def split: option.splits)

section \<open>The handler by its two paths\<close>

text \<open>With a zero endpoint: two saved accounts, the diagnostics and the note of the skip.\<close>

lemma handleTransfer_zero:
  assumes "equals (params_from e) (ZERO_ADDRESS K) \<or> equals (params_to e) (ZERO_ADDRESS K)"
  shows "handleTransfer K fresh e s =
    (Account_save
       ((getOrCreateAccount fresh s (params_to e))
          \<lparr>txHash := Some (transaction_hash e),
            receiveCount := Some (case receiveCount (getOrCreateAccount fresh s (params_to e)) of
                                    Some c \<Rightarrow> c + 1 | None \<Rightarrow> 1),
            totalSpent := Some (case totalSpent (getOrCreateAccount fresh s (params_to e)) of
                                  Some c \<Rightarrow> c + transaction_value e | None \<Rightarrow> transaction_value e)\<rparr>)
       (Account_save
          ((getOrCreateAccount fresh s (params_from e))
             \<lparr>txHash := Some (transaction_hash e),
               sendCount := Some (case sendCount (getOrCreateAccount fresh s (params_from e)) of
                                    Some c \<Rightarrow> c + 1 | None \<Rightarrow> 1)\<rparr>) s),
     marketplaceLog K (classifyMarketplace K (transaction_to e) (transaction_from e))
        (transaction_to e) (transaction_from e) (transaction_hash e)
      @ [SkippingInteractionTracking (transaction_hash e)])"
  using assms by (auto simp: handleTransfer_def Let_def BIGINT_ONE_def cong: option.case_cong)

text \<open>
  With no zero endpoint: the two accounts saved, the interaction block run for the sender
  and then for the recipient, the accounts saved again and the Transfer saved.
\<close>

lemma handleTransfer_nonzero:
  assumes "\<not> equals (params_from e) (ZERO_ADDRESS K)"
    and "\<not> equals (params_to e) (ZERO_ADDRESS K)"
  shows "fst (handleTransfer K fresh e s) =
    (let T = classifyMarketplace K (transaction_to e) (transaction_from e);
         s2 = Account_save (countedTo K fresh e s) (Account_save (countedFrom K fresh e s) s);
         (fa, s3) = tracked T (countedFrom K fresh e s) s2;
         (ta, s4) = tracked T (countedTo K fresh e s) s3
     in CovenTransfer_save
          \<lparr>id_Transfer = transaction_hash e @ ''-'' @ BigInt_toHex (logIndex e),
           from_Transfer = toHex (params_from e),
           to_Transfer = toHex (params_to e),
           tokenId = params_tokenId e,
           logIndex_Transfer = logIndex e,
           txHash_Transfer = transaction_hash e,
           value_Transfer = transaction_value e,
           marketplace_Transfer = getMarketplaceName T\<rparr>
          (Account_save ta (Account_save fa s4)))"
  using assms
  unfolding handleTransfer_def countedFrom_def countedTo_def tracked_def Let_def
    BIGINT_ONE_def BIGINT_ZERO_def
  by (simp split: option.split)

lemma counted_id [simp]:
  "id_Account (countedFrom K fresh e s) = toHex (params_from e)"
  "id_Account (countedTo K fresh e s) = toHex (params_to e)"
  by (simp_all add: countedFrom_def countedTo_def Let_def)

lemma tracked_interaction:
  "MarketplaceInteraction_load (snd (tracked T a s)) k =
     (if k = id_Account a @ ''-'' @ Marketplace_toString T
      then Some (case MarketplaceInteraction_load s k of
                   None \<Rightarrow>
                     \<lparr>id_Interaction = k, account = id_Account a,
                      marketplace_Interaction = getMarketplaceName T, transactionCount = 1\<rparr>
                 | Some i \<Rightarrow> i\<lparr>transactionCount := transactionCount i + 1\<rparr>)
      else MarketplaceInteraction_load s k)"
  by (auto simp: tracked_def dest: Interaction_load_id split: option.splits)

lemma tracked_account:
  "fst (tracked T a s) =
     a\<lparr>uniqueMarketplacesCount := uniqueMarketplacesCount a +
         (case MarketplaceInteraction_load s (id_Account a @ ''-'' @ Marketplace_toString T) of
            None \<Rightarrow> 1 | Some i \<Rightarrow> 0)\<rparr>"
  by (simp add: tracked_def split: option.splits)

lemma tracked_rest [simp]:
  "Account_load (snd (tracked T a s)) i = Account_load s i"
  "accounts (snd (tracked T a s)) = accounts s"
  "transfers (snd (tracked T a s)) = transfers s"
  by (simp_all add: tracked_def split: option.splits)

lemma handleTransfer_interaction:
  assumes "\<not> equals (params_from e) (ZERO_ADDRESS K)"
    and "\<not> equals (params_to e) (ZERO_ADDRESS K)"
  shows "MarketplaceInteraction_load (fst (handleTransfer K fresh e s)) k =
    MarketplaceInteraction_load
      (snd (tracked (classifyMarketplace K (transaction_to e) (transaction_from e))
              (countedTo K fresh e s)
         (snd (tracked (classifyMarketplace K (transaction_to e) (transaction_from e))
              (countedFrom K fresh e s) s)))) k"
  by (simp add: handleTransfer_nonzero [OF assms] Let_def case_prod_beta
        tracked_interaction)

lemma handleTransfer_account:
  assumes "\<not> equals (params_from e) (ZERO_ADDRESS K)"
    and "\<not> equals (params_to e) (ZERO_ADDRESS K)"
  shows "Account_load (fst (handleTransfer K fresh e s)) i =
    (if i = toHex (params_to e)
     then Some (fst (tracked (classifyMarketplace K (transaction_to e) (transaction_from e))
              (countedTo K fresh e s)
         (snd (tracked (classifyMarketplace K (transaction_to e) (transaction_from e))
              (countedFrom K fresh e s) s))))
     else if i = toHex (params_from e)
     then Some (fst (tracked (classifyMarketplace K (transaction_to e) (transaction_from e))
              (countedFrom K fresh e s) s))
     else Account_load s i)"
  by (simp add: handleTransfer_nonzero [OF assms] Let_def case_prod_beta
        tracked_account tracked_interaction)

lemma Interaction_load_None:
  "MarketplaceInteraction_load s k = None \<Longrightarrow> \<forall>m \<in> set (interactions s). id_Interaction m \<noteq> k"
  by (simp add: MarketplaceInteraction_load_def find_None_iff)

lemma handleTransfer_interactions:
  assumes "\<not> equals (params_from e) (ZERO_ADDRESS K)"
    and "\<not> equals (params_to e) (ZERO_ADDRESS K)"
  shows "interactions (fst (handleTransfer K fresh e s)) =
    interactions
      (snd (tracked (classifyMarketplace K (transaction_to e) (transaction_from e))
              (countedTo K fresh e s)
         (snd (tracked (classifyMarketplace K (transaction_to e) (transaction_from e))
              (countedFrom K fresh e s)
              (Account_save (countedTo K fresh e s) (Account_save (countedFrom K fresh e s) s))))))"
  by (simp add: handleTransfer_nonzero [OF assms] Let_def case_prod_beta)

text \<open>The example store is the store after the example sale.\<close>

lemma oneSaleStore_reached:
  "fst (handleTransfer fixtureConsts blankAccount saleEvent emptyStore) = oneSaleStore"
  by (simp add: eval_defs fixture_defs oneSaleStore_def)

section \<open>The classifier\<close>

text \<open>
  C2: the chain of comparisons of the source computes what the specification describes:
  the tag of the first pair of the ordered list OpenSeaV1, OpenSeaV2, SeaPort, LooksRare,
  OxProtocol, OxProtocolV2, Blur, Rarible, X2Y2, NFTX, GenieSwap, CryptoCoven whose known
  address equals the transaction's \<open>to\<close> address or its \<open>from\<close> address, and \<open>Unknown\<close>
  when one of the two addresses is absent or no pair matches.
\<close>

theorem classifyMarketplace_refines_spec: "classifyMarketplace K a b = classifier_spec K a b"
  by (simp add: classifyMarketplace_def classifier_spec_def marketplaceTable_def equals_def
        eq_commute split: option.splits)

text \<open>
  C9: the classifier is total. For every pair of optional addresses it returns a tag of
  the closed set, and for the pair of two absent addresses it returns \<open>Unknown\<close>. There
  is no failing branch: \<open>equals\<close> is only called once both addresses are known to be
  present.
\<close>

theorem classifyMarketplace_total:
  "classifyMarketplace K a b \<in> set closedTags \<and> classifyMarketplace K None None = Unknown"
  by (cases "classifyMarketplace K a b") (simp_all add: closedTags_def classifyMarketplace_def)

section \<open>The diagnostics\<close>

text \<open>
  An absent transaction address makes the classification \<open>Unknown\<close>, and the chain of
  diagnostics tests for \<open>Unknown\<close> first: the branch that logs "Unusual Activity" is
  never reached, whatever the event.
\<close>

lemma classify_absent1: "classifyMarketplace K None rc = Unknown"
  by (simp add: classifyMarketplace_def)

lemma classify_absent2: "classifyMarketplace K sd None = Unknown"
  by (cases sd) (simp_all add: classifyMarketplace_def)

lemma marketplaceLog_not_unusual:
  "UnusualActivity h \<notin> set (marketplaceLog K (classifyMarketplace K sd rc) sd rc h')"
proof (cases "sd = None \<or> rc = None")
  case True
  then show ?thesis
    by (auto simp: classify_absent1 classify_absent2 marketplaceLog_def)
next
  case False
  then show ?thesis by (simp add: marketplaceLog_def)
qed

lemma handleTransfer_log:
  "snd (handleTransfer K fresh e s) =
     marketplaceLog K (classifyMarketplace K (transaction_to e) (transaction_from e))
       (transaction_to e) (transaction_from e) (transaction_hash e)
     @ (if \<not> equals (params_from e) (ZERO_ADDRESS K) \<and> \<not> equals (params_to e) (ZERO_ADDRESS K)
        then [] else [SkippingInteractionTracking (transaction_hash e)])"
  by (simp add: handleTransfer_def Let_def split: prod.splits option.splits)

lemma UnusualActivity_never_logged: "UnusualActivity h \<notin> set (snd (handleTransfer K fresh e s))"
  by (simp add: handleTransfer_log marketplaceLog_not_unusual)

text \<open>
  C8, at two events on the empty store. The first is a transfer in a transaction without a
  \<open>to\<close> address: the claim has an entry flagged as unusual activity in the log, the handler
  logs "Unknown MarketPlace" and nothing else. The second is a transfer in a transaction sent
  to the zero address: the claim has the burn signal logged, the handler again logs
  "Unknown MarketPlace" and nothing else.
\<close>

theorem absent_address_logs_unknown_marketplace:
  "snd (handleTransfer fixtureConsts blankAccount creationEvent emptyStore)
     = [UnknownMarketPlace ''0xh3'']
   \<and> snd (handleTransfer fixtureConsts blankAccount burnSignalEvent emptyStore)
     = [UnknownMarketPlace ''0xh4'']"
  by (simp add: handler_defs fixture_defs marketplaceLog_def classifyMarketplace_def
        getOrCreateAccount_def Account_load_def Account_save_def
        MarketplaceInteraction_load_def MarketplaceInteraction_save_def CovenTransfer_save_def
        strict_eq_def)

section \<open>Mints and burns\<close>



text \<open>
  C6: when the sender or the recipient of the token is the zero address, the Transfer
  entity that the handler builds is not saved: the Transfer rows of the store are the same
  before and after, so the store holds no row for this event unless it held one already.
  Both accounts are in the store afterwards, and the log has the entry that notes the skip.
\<close>

theorem mint_burn_saves_no_transfer:
  assumes "equals (params_from e) (ZERO_ADDRESS K) \<or> equals (params_to e) (ZERO_ADDRESS K)"
  shows "transfers (fst (handleTransfer K fresh e s)) = transfers s
    \<and> CovenTransfer_load (fst (handleTransfer K fresh e s))
          (transaction_hash e @ ''-'' @ BigInt_toHex (logIndex e))
        = CovenTransfer_load s (transaction_hash e @ ''-'' @ BigInt_toHex (logIndex e))
    \<and> (\<exists>a. Account_load (fst (handleTransfer K fresh e s)) (toHex (params_from e)) = Some a)
    \<and> (\<exists>a. Account_load (fst (handleTransfer K fresh e s)) (toHex (params_to e)) = Some a)
    \<and> SkippingInteractionTracking (transaction_hash e) \<in> set (snd (handleTransfer K fresh e s))"
  unfolding handleTransfer_zero [OF assms]
  by (auto simp: equals_def toHex_def)

theorem mint_burn_saves_no_transfer_witness:
  "equals (params_from mintEvent) (ZERO_ADDRESS fixtureConsts)
   \<and> transfers (fst (handleTransfer fixtureConsts blankAccount mintEvent emptyStore)) = []
   \<and> CovenTransfer_load (fst (handleTransfer fixtureConsts blankAccount mintEvent emptyStore))
        ''0xh0-0x0'' = None
   \<and> (\<exists>a. Account_load (fst (handleTransfer fixtureConsts blankAccount mintEvent emptyStore)) ''0x00'' = Some a)
   \<and> (\<exists>a. Account_load (fst (handleTransfer fixtureConsts blankAccount mintEvent emptyStore)) ''0xaa'' = Some a)
   \<and> SkippingInteractionTracking ''0xh0''
        \<in> set (snd (handleTransfer fixtureConsts blankAccount mintEvent emptyStore))"
proof -
  have z: "equals (params_from mintEvent) (ZERO_ADDRESS fixtureConsts)
           \<or> equals (params_to mintEvent) (ZERO_ADDRESS fixtureConsts)"
    by (simp add: equals_def fixture_defs)
  show ?thesis
    using mint_burn_saves_no_transfer [OF z, of blankAccount emptyStore]
    by (simp add: equals_def toHex_def fixture_defs CovenTransfer_load_def BigInt_toHex_def
          hexDigits.simps)
qed

section \<open>Transfers between accounts\<close>




text \<open>
  C5, as the handler has it: when neither endpoint is the zero address and the event is
  classified with tag \<open>T\<close>, the interaction record of each endpoint \<open>x\<close> is stored under
  the key \<open>toHex x + "-" + T.toString()\<close>, where \<open>T.toString()\<close> is the decimal number of
  the tag in the enum and not its name. Each of the two blocks creates the record, with the
  account, the display string of the tag and \<open>transactionCount\<close> 1, or increments the
  \<open>transactionCount\<close> of the existing record by 1; when sender and recipient are one
  account, the record is touched by both blocks.
\<close>

theorem interaction_key_and_count:
  assumes "\<not> equals (params_from e) (ZERO_ADDRESS K)"
    and "\<not> equals (params_to e) (ZERO_ADDRESS K)"
    and "classifyMarketplace K (transaction_to e) (transaction_from e) = T"
    and "x = params_from e \<or> x = params_to e"
  shows "MarketplaceInteraction_load (fst (handleTransfer K fresh e s))
           (toHex x @ ''-'' @ Marketplace_toString T) =
         Some (case MarketplaceInteraction_load s (toHex x @ ''-'' @ Marketplace_toString T) of
                 None \<Rightarrow>
                   \<lparr>id_Interaction = toHex x @ ''-'' @ Marketplace_toString T,
                    account = toHex x,
                    marketplace_Interaction = getMarketplaceName T,
                    transactionCount = (if equals (params_from e) (params_to e) then 2 else 1)\<rparr>
               | Some m \<Rightarrow>
                   m\<lparr>transactionCount := transactionCount m
                       + (if equals (params_from e) (params_to e) then 2 else 1)\<rparr>)"
proof -
  have "toHex x = toHex (params_from e) \<or> toHex x = toHex (params_to e)"
    using assms(4) by auto
  then show ?thesis
    unfolding handleTransfer_interaction [OF assms(1,2)] assms(3)
    by (auto simp: tracked_interaction equals_def toHex_def split: option.splits)
qed

theorem interaction_key_and_count_witness:
  "\<not> equals (params_from saleEvent) (ZERO_ADDRESS fixtureConsts)
   \<and> \<not> equals (params_to saleEvent) (ZERO_ADDRESS fixtureConsts)
   \<and> classifyMarketplace fixtureConsts (transaction_to saleEvent) (transaction_from saleEvent)
       = OpenSeaV1
   \<and> MarketplaceInteraction_load
        (fst (handleTransfer fixtureConsts blankAccount saleEvent emptyStore)) ''0xaa-0''
      = Some \<lparr>id_Interaction = ''0xaa-0'', account = ''0xaa'',
               marketplace_Interaction = ''OpenSeaV1'', transactionCount = 1\<rparr>"
proof -
  have a: "\<not> equals (params_from saleEvent) (ZERO_ADDRESS fixtureConsts)"
    and b: "\<not> equals (params_to saleEvent) (ZERO_ADDRESS fixtureConsts)"
    and c: "classifyMarketplace fixtureConsts (transaction_to saleEvent)
              (transaction_from saleEvent) = OpenSeaV1"
    and d: "params_from saleEvent = params_from saleEvent \<or> params_from saleEvent = params_to saleEvent"
    by (simp_all add: equals_def fixture_defs classifyMarketplace_def)
  show ?thesis
    using a b c interaction_key_and_count [OF a b c d, of blankAccount emptyStore]
    by (simp add: equals_def toHex_def fixture_defs MarketplaceInteraction_load_def
          Marketplace_toString_def decimal.simps)
qed

text \<open>The rendering of a tag in the key is never its display string.\<close>

lemma Marketplace_toString_not_name: "Marketplace_toString T \<noteq> getMarketplaceName T"
  by (cases T) (simp_all add: Marketplace_toString_def decimal.simps)

text \<open>
  C5 as the claim states it fails on the key: after a sale classified OpenSeaV1 there is
  no record under \<open>0xaa-OpenSeaV1\<close>; the records are under \<open>0xaa-0\<close> and \<open>0xbb-0\<close>.
\<close>

theorem interaction_key_is_ordinal:
  "classifyMarketplace fixtureConsts (transaction_to saleEvent) (transaction_from saleEvent)
     = OpenSeaV1
   \<and> MarketplaceInteraction_load
        (fst (handleTransfer fixtureConsts blankAccount saleEvent emptyStore)) ''0xaa-OpenSeaV1''
      = None
   \<and> map id_Interaction (interactions
        (fst (handleTransfer fixtureConsts blankAccount saleEvent emptyStore)))
      = [''0xbb-0'', ''0xaa-0'']"
  by (simp add: eval_defs fixture_defs)

text \<open>
  C7, as the handler has it: when an account already has an interaction record for tag
  \<open>T\<close>, an event between two different accounts, neither the zero address, that is
  classified \<open>T\<close> and has this account as sender or recipient increments the record's
  \<open>transactionCount\<close> by 1 (from 1 to 2 in the scenario of the specification) and leaves
  the account's \<open>uniqueMarketplacesCount\<close> as it was.
\<close>

theorem repeated_marketplace_counts_once:
  assumes "\<not> equals (params_from e) (ZERO_ADDRESS K)"
    and "\<not> equals (params_to e) (ZERO_ADDRESS K)"
    and "\<not> equals (params_from e) (params_to e)"
    and "classifyMarketplace K (transaction_to e) (transaction_from e) = T"
    and "x = params_from e \<or> x = params_to e"
    and "MarketplaceInteraction_load s (toHex x @ ''-'' @ Marketplace_toString T) = Some m"
  shows "MarketplaceInteraction_load (fst (handleTransfer K fresh e s))
           (toHex x @ ''-'' @ Marketplace_toString T)
         = Some (m\<lparr>transactionCount := transactionCount m + 1\<rparr>)
       \<and> map_option uniqueMarketplacesCount
           (Account_load (fst (handleTransfer K fresh e s)) (toHex x))
         = Some (uniqueMarketplacesCount (getOrCreateAccount fresh s x))"
proof -
  have x: "(toHex x = toHex (params_from e) \<and> toHex x \<noteq> toHex (params_to e))
         \<or> (toHex x = toHex (params_to e) \<and> toHex x \<noteq> toHex (params_from e))"
    using assms(3,5) by (auto simp: equals_def toHex_def)
  have g: "getOrCreateAccount fresh s x = getOrCreateAccount fresh s (params_from e)
         \<or> getOrCreateAccount fresh s x = getOrCreateAccount fresh s (params_to e)"
    using assms(5) by auto
  have i: "MarketplaceInteraction_load (fst (handleTransfer K fresh e s))
           (toHex x @ ''-'' @ Marketplace_toString T)
         = Some (m\<lparr>transactionCount := transactionCount m + 1\<rparr>)"
    using x assms(6)
    unfolding handleTransfer_interaction [OF assms(1,2)] assms(4)
    by (auto simp: tracked_interaction)
  have u: "map_option uniqueMarketplacesCount
           (Account_load (fst (handleTransfer K fresh e s)) (toHex x))
         = Some (uniqueMarketplacesCount (getOrCreateAccount fresh s x))"
    using x assms(5,6)
    unfolding handleTransfer_account [OF assms(1,2)] assms(4)
    by (auto simp: tracked_account tracked_interaction countedFrom_def countedTo_def Let_def)
  from i u show ?thesis by simp
qed

theorem repeated_marketplace_counts_once_witness:
  "\<not> equals (params_from saleEvent) (ZERO_ADDRESS fixtureConsts)
   \<and> \<not> equals (params_to saleEvent) (ZERO_ADDRESS fixtureConsts)
   \<and> \<not> equals (params_from saleEvent) (params_to saleEvent)
   \<and> classifyMarketplace fixtureConsts (transaction_to saleEvent) (transaction_from saleEvent)
       = OpenSeaV1
   \<and> map_option transactionCount (MarketplaceInteraction_load oneSaleStore ''0xaa-0'') = Some 1
   \<and> map_option uniqueMarketplacesCount (Account_load oneSaleStore ''0xaa'') = Some 1
   \<and> map_option transactionCount
        (MarketplaceInteraction_load
           (fst (handleTransfer fixtureConsts blankAccount saleEvent oneSaleStore)) ''0xaa-0'')
      = Some 2
   \<and> map_option uniqueMarketplacesCount
        (Account_load (fst (handleTransfer fixtureConsts blankAccount saleEvent oneSaleStore)) ''0xaa'')
      = Some 1"
proof -
  have a: "\<not> equals (params_from saleEvent) (ZERO_ADDRESS fixtureConsts)"
    and b: "\<not> equals (params_to saleEvent) (ZERO_ADDRESS fixtureConsts)"
    and c: "\<not> equals (params_from saleEvent) (params_to saleEvent)"
    and d: "classifyMarketplace fixtureConsts (transaction_to saleEvent)
              (transaction_from saleEvent) = OpenSeaV1"
    and f: "params_from saleEvent = params_from saleEvent
            \<or> params_from saleEvent = params_to saleEvent"
    and g: "MarketplaceInteraction_load oneSaleStore
              (toHex (params_from saleEvent) @ ''-'' @ Marketplace_toString OpenSeaV1)
            = Some \<lparr>id_Interaction = ''0xaa-0'', account = ''0xaa'',
                     marketplace_Interaction = ''OpenSeaV1'', transactionCount = 1\<rparr>"
    by (simp_all add: equals_def toHex_def fixture_defs classifyMarketplace_def oneSaleStore_def
          MarketplaceInteraction_load_def Marketplace_toString_def decimal.simps)
  show ?thesis
    using a b c d g repeated_marketplace_counts_once [OF a b c d f g, of blankAccount]
    by (simp add: toHex_def fixture_defs oneSaleStore_def getOrCreateAccount_def
          Account_load_def Marketplace_toString_def decimal.simps)
qed

text \<open>
  C7 as the claim states it fails when the second event is a transfer of the account to
  itself: the block for the sender and the block for the recipient both increment the one
  record, and its \<open>transactionCount\<close> goes from 1 to 3.
\<close>

theorem self_transfer_counts_twice:
  "classifyMarketplace fixtureConsts (transaction_to selfSaleEvent) (transaction_from selfSaleEvent)
     = OpenSeaV1
   \<and> map_option transactionCount (MarketplaceInteraction_load oneSaleStore ''0xaa-0'') = Some 1
   \<and> map_option transactionCount
        (MarketplaceInteraction_load
           (fst (handleTransfer fixtureConsts blankAccount selfSaleEvent oneSaleStore)) ''0xaa-0'')
      = Some 3"
  by (simp add: eval_defs fixture_defs oneSaleStore_def)

section \<open>Self-transfers\<close>

text \<open>
  C10: when sender and recipient are the same address, not the zero address, the account
  in the store after the handler is the loaded account with the changes of the
  \<open>toAccount\<close> copy only: the transaction hash, \<open>receiveCount\<close> and \<open>totalSpent\<close>
  updated, \<open>nftCount\<close> incremented from the loaded value. \<open>sendCount\<close> is the loaded
  one and \<open>nftCount\<close> is not decremented: what the handler did to the \<open>fromAccount\<close>
  copy is overwritten by the save of the \<open>toAccount\<close> copy. Every other field,
  \<open>uniqueMarketplacesCount\<close> among them, is as it was loaded.
\<close>

theorem self_transfer_keeps_to_copy:
  assumes "equals (params_from e) (params_to e)"
    and "\<not> equals (params_from e) (ZERO_ADDRESS K)"
  shows "Account_load (fst (handleTransfer K fresh e s)) (toHex (params_from e)) =
    Some ((getOrCreateAccount fresh s (params_from e))
      \<lparr>txHash := Some (transaction_hash e),
        receiveCount := Some (case receiveCount (getOrCreateAccount fresh s (params_from e)) of
                                Some c \<Rightarrow> c + 1 | None \<Rightarrow> 1),
        totalSpent := Some (case totalSpent (getOrCreateAccount fresh s (params_from e)) of
                              Some c \<Rightarrow> c + transaction_value e
                            | None \<Rightarrow> transaction_value e),
        nftCount := Some (case nftCount (getOrCreateAccount fresh s (params_from e)) of
                            Some c \<Rightarrow> c + 1 | None \<Rightarrow> 1)\<rparr>)"
proof -
  have h: "toHex (params_to e) = toHex (params_from e)"
    using assms(1) by (simp add: equals_def toHex_def)
  have z: "\<not> equals (params_to e) (ZERO_ADDRESS K)"
    using assms by (simp add: equals_def)
  have g: "getOrCreateAccount fresh s (params_to e) = getOrCreateAccount fresh s (params_from e)"
    by (rule getOrCreateAccount_same) (simp add: h)
  show ?thesis
    unfolding handleTransfer_account [OF assms(2) z]
    using assms(2) z
    by (simp add: h g tracked_account tracked_interaction countedFrom_def countedTo_def Let_def)
qed

theorem self_transfer_keeps_to_copy_witness:
  "equals (params_from selfSaleEvent) (params_to selfSaleEvent)
   \<and> \<not> equals (params_from selfSaleEvent) (ZERO_ADDRESS fixtureConsts)
   \<and> Account_load oneSaleStore ''0xaa''
      = Some \<lparr>id_Account = ''0xaa'', txHash = Some ''0xh1'', sendCount = Some 1,
               receiveCount = None, totalSpent = None, nftCount = Some 0,
               uniqueMarketplacesCount = 1\<rparr>
   \<and> Account_load (fst (handleTransfer fixtureConsts blankAccount selfSaleEvent oneSaleStore)) ''0xaa''
      = Some \<lparr>id_Account = ''0xaa'', txHash = Some ''0xh5'', sendCount = Some 1,
               receiveCount = Some 1, totalSpent = Some 0, nftCount = Some 1,
               uniqueMarketplacesCount = 1\<rparr>"
proof -
  have a: "equals (params_from selfSaleEvent) (params_to selfSaleEvent)"
    and b: "\<not> equals (params_from selfSaleEvent) (ZERO_ADDRESS fixtureConsts)"
    by (simp_all add: equals_def fixture_defs)
  show ?thesis
    using a b self_transfer_keeps_to_copy [OF a b, of blankAccount oneSaleStore]
    by (simp add: toHex_def fixture_defs oneSaleStore_def getOrCreateAccount_def Account_load_def)
qed

section \<open>The marketplace count\<close>

text \<open>
  The interaction block adds a record to the account exactly when it counts one on the
  in-memory account, so the invariant is kept by every event but one kind: a transfer of an
  account to itself through a marketplace that is new to the account. It holds on the empty
  store when accounts are created with count 0, and after every sequence of events without
  a self-transfer.
\<close>

lemma interactionCount_distinct:
  "distinct (map id_Interaction (interactions s)) \<Longrightarrow>
   interactionCount s i = length (filter (\<lambda>m. account m = i) (interactions s))"
proof -
  assume "distinct (map id_Interaction (interactions s))"
  then have "distinct (map id_Interaction (filter (\<lambda>m. account m = i) (interactions s)))"
    by (rule distinct_map_filter)
  then show ?thesis
    by (simp add: interactionCount_def distinct_remdups_id)
qed

lemma filter_out_found:
  "distinct (map f xs) \<Longrightarrow> find (\<lambda>m. f m = k) xs = Some m \<Longrightarrow>
   length (filter P xs) = (if P m then 1 else 0) + length (filter P (filter (\<lambda>b. f b \<noteq> k) xs))"
proof (induction xs)
  case Nil
  then show ?case by simp
next
  case (Cons x xs)
  show ?case
  proof (cases "f x = k")
    case True
    then have mx: "m = x" using Cons.prems(2) by simp
    have "\<forall>b \<in> set xs. f b \<noteq> k"
      using Cons.prems(1) True by (auto simp: image_iff)
    then have "filter (\<lambda>b. f b \<noteq> k) xs = xs"
      by (simp add: filter_id_conv)
    with mx True show ?thesis by simp
  next
    case False
    then show ?thesis using Cons by simp
  qed
qed

lemma tracked_distinct:
  assumes "distinct (map id_Interaction (interactions s))"
  shows "distinct (map id_Interaction (interactions (snd (tracked T a s))))"
  using assms
  by (auto simp: tracked_def MarketplaceInteraction_save_def distinct_map_filter
        split: option.splits)

lemma tracked_count:
  assumes "distinct (map id_Interaction (interactions s))"
  shows "length (filter (\<lambda>m. account m = i) (interactions (snd (tracked T a s)))) =
         length (filter (\<lambda>m. account m = i) (interactions s))
         + (if MarketplaceInteraction_load s (id_Account a @ ''-'' @ Marketplace_toString T) = None
               \<and> i = id_Account a then 1 else 0)"
proof (cases "MarketplaceInteraction_load s (id_Account a @ ''-'' @ Marketplace_toString T)")
  case None
  then have "filter (\<lambda>b. id_Interaction b \<noteq> id_Account a @ ''-'' @ Marketplace_toString T)
               (interactions s) = interactions s"
    using Interaction_load_None [OF None] by (simp add: filter_id_conv)
  then show ?thesis
    using None by (simp add: tracked_def MarketplaceInteraction_save_def)
next
  case (Some m)
  have k: "id_Interaction m = id_Account a @ ''-'' @ Marketplace_toString T"
    using Some by (rule Interaction_load_id)
  show ?thesis
    using Some filter_out_found [OF assms, of "id_Account a @ ''-'' @ Marketplace_toString T" m
        "\<lambda>m. account m = i"]
    by (simp add: tracked_def MarketplaceInteraction_save_def MarketplaceInteraction_load_def k)
qed

lemma countsAgree_zero:
  assumes "countsAgree fresh s"
    and "equals (params_from e) (ZERO_ADDRESS K) \<or> equals (params_to e) (ZERO_ADDRESS K)"
  shows "countsAgree fresh (fst (handleTransfer K fresh e s))"
proof -
  have u: "uniqueMarketplacesCount
             (getOrCreateAccount fresh (fst (handleTransfer K fresh e s)) a)
           = uniqueMarketplacesCount (getOrCreateAccount fresh s a)" for a
    using getOrCreateAccount_same [of a "params_to e" fresh s]
      getOrCreateAccount_same [of a "params_from e" fresh s]
    by (auto simp: handleTransfer_zero [OF assms(2)] getOrCreateAccount_save)
  have i: "interactions (fst (handleTransfer K fresh e s)) = interactions s"
    by (simp add: handleTransfer_zero [OF assms(2)])
  show ?thesis
    using assms(1) by (simp add: countsAgree_def u i interactionCount_def)
qed

lemma tracked_umc:
  "uniqueMarketplacesCount (fst (tracked T a s)) =
     uniqueMarketplacesCount a
     + (if MarketplaceInteraction_load s (id_Account a @ ''-'' @ Marketplace_toString T) = None
        then 1 else 0)"
  by (simp add: tracked_def split: option.splits)

lemma counted_umc:
  "uniqueMarketplacesCount (countedFrom K fresh e s)
     = uniqueMarketplacesCount (getOrCreateAccount fresh s (params_from e))"
  "uniqueMarketplacesCount (countedTo K fresh e s)
     = uniqueMarketplacesCount (getOrCreateAccount fresh s (params_to e))"
  by (simp_all add: countedFrom_def countedTo_def Let_def)

lemma tracked_loaded_None:
  "(MarketplaceInteraction_load (snd (tracked T a s)) k = None) =
     (k \<noteq> id_Account a @ ''-'' @ Marketplace_toString T
      \<and> MarketplaceInteraction_load s k = None)"
  by (simp add: tracked_interaction)

lemma countsAgree_nonzero:
  assumes "countsAgree fresh s"
    and "\<not> equals (params_from e) (ZERO_ADDRESS K)"
    and "\<not> equals (params_to e) (ZERO_ADDRESS K)"
    and "\<not> (equals (params_from e) (params_to e)
            \<and> MarketplaceInteraction_load s
                 (toHex (params_from e) @ ''-''
                    @ Marketplace_toString
                        (classifyMarketplace K (transaction_to e) (transaction_from e)))
               = None)"
  shows "countsAgree fresh (fst (handleTransfer K fresh e s))"
proof -
  let ?T = "classifyMarketplace K (transaction_to e) (transaction_from e)"
  let ?cF = "countedFrom K fresh e s"
  let ?cT = "countedTo K fresh e s"
  let ?s2 = "Account_save ?cT (Account_save ?cF s)"
  let ?s3 = "snd (tracked ?T ?cF ?s2)"
  let ?s4 = "snd (tracked ?T ?cT ?s3)"
  let ?s' = "fst (handleTransfer K fresh e s)"
  let ?f = "toHex (params_from e)"
  let ?t = "toHex (params_to e)"
  let ?kF = "?f @ ''-'' @ Marketplace_toString ?T"
  let ?kT = "?t @ ''-'' @ Marketplace_toString ?T"
  let ?cnt = "\<lambda>s i. length (filter (\<lambda>m. account m = i) (interactions s))"
  let ?nF = "if MarketplaceInteraction_load s ?kF = None then 1 else (0::nat)"
  let ?nT = "if ?t \<noteq> ?f \<and> MarketplaceInteraction_load s ?kT = None then 1 else (0::nat)"
  have d: "distinct (map id_Interaction (interactions s))"
    and inv: "uniqueMarketplacesCount (getOrCreateAccount fresh s a)
              = int (interactionCount s (toHex a))" for a
    using assms(1) by (simp_all add: countsAgree_def)
  have d2: "distinct (map id_Interaction (interactions ?s2))"
    using d by simp
  have d3: "distinct (map id_Interaction (interactions ?s3))"
    using d2 by (rule tracked_distinct)
  have d4: "distinct (map id_Interaction (interactions ?s4))"
    using d3 by (rule tracked_distinct)
  have is': "interactions ?s' = interactions ?s4"
    by (rule handleTransfer_interactions [OF assms(2,3)])
  have c3: "?cnt ?s3 i = ?cnt s i + (if i = ?f then ?nF else 0)" for i
    using tracked_count [OF d2, of i ?T ?cF] by simp
  have c4: "?cnt ?s4 i = ?cnt ?s3 i + (if i = ?t then ?nT else 0)" for i
    using tracked_count [OF d3, of i ?T ?cT] by (simp add: tracked_loaded_None)
  have cnt': "interactionCount ?s' i
      = interactionCount s i + (if i = ?f then ?nF else 0) + (if i = ?t then ?nT else 0)" for i
    using d4 d by (simp add: interactionCount_distinct is' c4 c3)
  have self: "?nF = 0" if "?t = ?f"
    using that assms(4) by (simp add: equals_def toHex_def)
  have u: "uniqueMarketplacesCount (getOrCreateAccount fresh ?s' a)
           = int (interactionCount ?s' (toHex a))" for a
  proof (cases "toHex a = ?t")
    case True
    then have g: "getOrCreateAccount fresh s a = getOrCreateAccount fresh s (params_to e)"
      by (rule getOrCreateAccount_same)
    have "uniqueMarketplacesCount (getOrCreateAccount fresh ?s' a)
          = uniqueMarketplacesCount (getOrCreateAccount fresh s (params_to e)) + int ?nT"
      using True
      by (simp add: getOrCreateAccount_def [of fresh ?s'] handleTransfer_account [OF assms(2,3)]
            tracked_umc counted_umc tracked_loaded_None)
    also have "\<dots> = int (interactionCount s (toHex a)) + int ?nT"
      using inv [of a] g by simp
    also have "\<dots> = int (interactionCount ?s' (toHex a))"
      using True self by (simp add: cnt')
    finally show ?thesis .
  next
    case False
    show ?thesis
    proof (cases "toHex a = ?f")
      case True
      then have g: "getOrCreateAccount fresh s a = getOrCreateAccount fresh s (params_from e)"
        by (rule getOrCreateAccount_same)
      have "uniqueMarketplacesCount (getOrCreateAccount fresh ?s' a)
          = uniqueMarketplacesCount (getOrCreateAccount fresh s (params_from e)) + int ?nF"
        using True False
        by (simp add: getOrCreateAccount_def [of fresh ?s'] handleTransfer_account [OF assms(2,3)]
              tracked_umc counted_umc)
      also have "\<dots> = int (interactionCount s (toHex a)) + int ?nF"
        using inv [of a] g by simp
      also have "\<dots> = int (interactionCount ?s' (toHex a))"
        using True False by (simp add: cnt')
      finally show ?thesis .
    next
      case notfrom: False
      have "uniqueMarketplacesCount (getOrCreateAccount fresh ?s' a)
            = uniqueMarketplacesCount (getOrCreateAccount fresh s a)"
        using False notfrom
        by (simp add: getOrCreateAccount_def handleTransfer_account [OF assms(2,3)])
      then show ?thesis
        using inv [of a] False notfrom by (simp add: cnt')
    qed
  qed
  show ?thesis
    using d4 u by (simp add: countsAgree_def is')
qed

lemma countsAgree_step:
  assumes "countsAgree fresh s"
    and "\<not> (equals (params_from e) (params_to e)
            \<and> \<not> equals (params_from e) (ZERO_ADDRESS K)
            \<and> MarketplaceInteraction_load s
                 (toHex (params_from e) @ ''-''
                    @ Marketplace_toString
                        (classifyMarketplace K (transaction_to e) (transaction_from e)))
               = None)"
  shows "countsAgree fresh (fst (handleTransfer K fresh e s))"
proof (cases "equals (params_from e) (ZERO_ADDRESS K) \<or> equals (params_to e) (ZERO_ADDRESS K)")
  case True
  with assms(1) show ?thesis by (rule countsAgree_zero)
next
  case False
  then have a: "\<not> equals (params_from e) (ZERO_ADDRESS K)"
    and b: "\<not> equals (params_to e) (ZERO_ADDRESS K)"
    by simp_all
  from assms(2) a have
    "\<not> (equals (params_from e) (params_to e)
        \<and> MarketplaceInteraction_load s
             (toHex (params_from e) @ ''-''
                @ Marketplace_toString
                    (classifyMarketplace K (transaction_to e) (transaction_from e)))
           = None)"
    by simp
  with assms(1) a b show ?thesis by (rule countsAgree_nonzero)
qed

lemma countsAgree_handleAll:
  assumes "countsAgree fresh s"
    and "list_all (\<lambda>e. \<not> equals (params_from e) (params_to e)) es"
  shows "countsAgree fresh (fst (handleAll K fresh es s))"
  using assms
proof (induction es arbitrary: s)
  case Nil
  then show ?case by simp
next
  case (Cons e es)
  have "countsAgree fresh (fst (handleTransfer K fresh e s))"
    using Cons.prems by (intro countsAgree_step) simp_all
  moreover have "list_all (\<lambda>e. \<not> equals (params_from e) (params_to e)) es"
    using Cons.prems(2) by simp
  ultimately have "countsAgree fresh (fst (handleAll K fresh es (fst (handleTransfer K fresh e s))))"
    by (rule Cons.IH)
  then show ?case
    by (simp add: case_prod_beta)
qed

lemma countsAgree_emptyStore:
  assumes "\<And>i. uniqueMarketplacesCount (fresh i) = 0"
  shows "countsAgree fresh emptyStore"
  by (simp add: countsAgree_def emptyStore_def getOrCreateAccount_def Account_load_def
        interactionCount_def assms)

text \<open>
  The overwrite in a self-transfer loses the marketplace count. In a transfer of an
  account to itself through a marketplace that is new to the account, the block for the
  sender creates the interaction record and counts it on the \<open>fromAccount\<close> copy; the
  block for the recipient finds the record and counts nothing; the \<open>toAccount\<close> copy is
  saved last. The account has one more interaction record and the
  \<open>uniqueMarketplacesCount\<close> it had.
\<close>

lemma self_transfer_new_marketplace:
  assumes "equals (params_from e) (params_to e)"
    and "\<not> equals (params_from e) (ZERO_ADDRESS K)"
    and "MarketplaceInteraction_load s
           (toHex (params_from e) @ ''-''
              @ Marketplace_toString (classifyMarketplace K (transaction_to e) (transaction_from e)))
         = None"
  shows "interactionCount (fst (handleTransfer K fresh e s)) (toHex (params_from e))
           = interactionCount s (toHex (params_from e)) + 1
       \<and> map_option uniqueMarketplacesCount
           (Account_load (fst (handleTransfer K fresh e s)) (toHex (params_from e)))
         = Some (uniqueMarketplacesCount (getOrCreateAccount fresh s (params_from e)))"
proof -
  let ?T = "classifyMarketplace K (transaction_to e) (transaction_from e)"
  let ?k = "toHex (params_from e) @ ''-'' @ Marketplace_toString ?T"
  have h: "toHex (params_to e) = toHex (params_from e)"
    using assms(1) by (simp add: equals_def toHex_def)
  have z: "\<not> equals (params_to e) (ZERO_ADDRESS K)"
    using assms(1,2) by (simp add: equals_def)
  have g: "getOrCreateAccount fresh s (params_to e) = getOrCreateAccount fresh s (params_from e)"
    by (rule getOrCreateAccount_same) (simp add: h)
  have keep: "filter (\<lambda>b. id_Interaction b \<noteq> ?k) (interactions s) = interactions s"
    using Interaction_load_None [OF assms(3)] by (simp add: filter_id_conv)
  have fresh_key: "?k \<notin> id_Interaction ` set (interactions s)"
    using Interaction_load_None [OF assms(3)] by (auto simp: image_iff)
  have "interactions (fst (handleTransfer K fresh e s)) =
      \<lparr>id_Interaction = ?k, account = toHex (params_from e),
        marketplace_Interaction = getMarketplaceName ?T, transactionCount = 2\<rparr>
      # interactions s"
    unfolding handleTransfer_interactions [OF assms(2) z]
    using assms(3) keep
    by (simp add: tracked_def h MarketplaceInteraction_save_def MarketplaceInteraction_load_def)
  then have c: "interactionCount (fst (handleTransfer K fresh e s)) (toHex (params_from e))
           = interactionCount s (toHex (params_from e)) + 1"
    using fresh_key by (auto simp: interactionCount_def)
  have u: "map_option uniqueMarketplacesCount
           (Account_load (fst (handleTransfer K fresh e s)) (toHex (params_from e)))
         = Some (uniqueMarketplacesCount (getOrCreateAccount fresh s (params_from e)))"
    unfolding handleTransfer_account [OF assms(2) z]
    by (simp add: h g tracked_account tracked_interaction countedFrom_def countedTo_def Let_def)
  from c u show ?thesis by simp
qed

text \<open>
  C1, at the sequence of one event, the transfer of \<open>0xaa\<close> to itself, handled on
  the empty store: afterwards the store has one interaction record whose account is
  \<open>0xaa\<close>, and the \<open>uniqueMarketplacesCount\<close> of \<open>0xaa\<close> is 0. The claim has the
  two equal after every sequence of events.
\<close>

theorem self_transfer_loses_marketplace_count:
  "interactionCount (fst (handleAll fixtureConsts blankAccount [selfEvent] emptyStore)) ''0xaa'' = 1
   \<and> map_option uniqueMarketplacesCount
       (Account_load (fst (handleAll fixtureConsts blankAccount [selfEvent] emptyStore)) ''0xaa'')
     = Some 0"
  by (simp add: eval_defs fixture_defs interactionCount_def)

end
